theory Spec2Isabelle
  imports Main "HOL-Library.Word"
begin

section \<open>Data model of \<^verbatim>\<open>src/utils/key_pair.ts\<close>\<close>

text \<open>
  A \<^verbatim>\<open>Uint8Array\<close> is a list of 8-bit words. Every exception the file raises is a
  JavaScript \<^verbatim>\<open>Error\<close> carrying a message; a function that can throw returns
  \<open>error + 'a\<close>, with \<open>Inl\<close> for the exception. \<^verbatim>\<open>RangeError\<close> is what
  \<^verbatim>\<open>TypedArray.prototype.set\<close> raises when the source does not fit.
\<close>

type_synonym bytes = "8 word list"

datatype error = Error string | RangeError string

text \<open>
  \<^verbatim>\<open>enum KeyType { ED25519 = 0 }\<close>: a numeric enumeration, so a \<^verbatim>\<open>keyType\<close> field
  holds a number at run time, and the two switches of the file on a key type have a
  \<^verbatim>\<open>default\<close> branch for a number that is not a member. A key type is an integer and
  \<open>ED25519\<close> is the member \<open>0\<close>.
\<close>

type_synonym KeyType = int

definition ED25519 :: KeyType where
  "ED25519 = 0"

text \<open>
  \<^verbatim>\<open>class PublicKey extends Assignable { keyType: KeyType; data: Uint8Array }\<close>.

  Modelled from the spec: the constructor of \<^verbatim>\<open>PublicKey\<close> is the one it inherits from
  \<^verbatim>\<open>Assignable\<close> (\<^verbatim>\<open>./enums\<close>), which is not among the source files. The data model of
  the specification gives a public key as the value \<^verbatim>\<open>{ keyType, data }\<close>, so
  \<^verbatim>\<open>new PublicKey({ keyType, data })\<close> is the record of these two fields.
\<close>

record PublicKey =
  keyType :: KeyType
  data :: bytes

text \<open>The object tweetnacl returns for a key pair: \<^verbatim>\<open>{publicKey, secretKey}\<close>, both raw bytes.\<close>

record nacl_KeyPair =
  publicKey :: bytes
  secretKey :: bytes

text \<open>\<^verbatim>\<open>interface Signature { signature: Uint8Array; publicKey: PublicKey }\<close>\<close>

record Signature =
  signature :: bytes
  publicKey :: PublicKey

text \<open>
  \<^verbatim>\<open>class KeyPairEd25519\<close>: the derived public key and the secret key in its encoded
  string form. Declared last, so that the unqualified field names \<open>publicKey\<close> and
  \<open>secretKey\<close> are the ones of this class.
\<close>

record KeyPairEd25519 =
  publicKey :: PublicKey
  secretKey :: string

subsection \<open>The imported modules\<close>

text \<open>
  \<^verbatim>\<open>import { base_encode, base_decode } from './serialize'\<close>. The module is not among
  the source files, so its two functions are parameters of everything that calls them.
  \<open>base_decode\<close> can throw on a malformed string.
\<close>

record serialize =
  base_encode :: "bytes \<Rightarrow> string"
  base_decode :: "string \<Rightarrow> error + bytes"

text \<open>
  \<^verbatim>\<open>import nacl from 'tweetnacl'\<close>: the functions of the library the file calls, as
  parameters. The library throws on arguments it rejects, and \<^verbatim>\<open>nacl.box.open\<close>
  returns \<^verbatim>\<open>null\<close> (\<open>Inr None\<close>) when the box does not authenticate. The two
  key generators draw random bytes; they are functions of the bytes drawn.
  \<^verbatim>\<open>nacl.box\<close> takes the public key as \<open>bytes option\<close>, since the source hands it
  the result of \<^verbatim>\<open>convertPublicKey\<close>, which may be \<^verbatim>\<open>null\<close>.
\<close>

record nacl =
  sign_keyPair :: "bytes \<Rightarrow> nacl_KeyPair"
  sign_keyPair_fromSecretKey :: "bytes \<Rightarrow> error + nacl_KeyPair"
  sign_detached :: "bytes \<Rightarrow> bytes \<Rightarrow> error + bytes"
  sign_detached_verify :: "bytes \<Rightarrow> bytes \<Rightarrow> bytes \<Rightarrow> error + bool"
  box_keyPair :: "bytes \<Rightarrow> nacl_KeyPair"
  box :: "bytes \<Rightarrow> bytes \<Rightarrow> bytes option \<Rightarrow> bytes \<Rightarrow> error + bytes"
  box_open :: "bytes \<Rightarrow> bytes \<Rightarrow> bytes \<Rightarrow> bytes \<Rightarrow> error + bytes option"

text \<open>\<^verbatim>\<open>import {convertPublicKey, convertSecretKey} from 'ed2curve'\<close>\<close>

record ed2curve =
  convertPublicKey :: "bytes \<Rightarrow> bytes option"
  convertSecretKey :: "bytes \<Rightarrow> bytes"

subsection \<open>The JavaScript string and array operations the file uses\<close>

text \<open>
  \<^verbatim>\<open>s.split(':')\<close> with a one-character separator: the pieces between the
  separators, so one piece more than there are separators; the empty string gives one
  empty piece.
\<close>

fun String_split :: "string \<Rightarrow> char \<Rightarrow> string list" where
  "String_split [] sep = [[]]"
| "String_split (x # xs) sep =
     (if x = sep then [] # String_split xs sep
      else (case String_split xs sep of
              [] \<Rightarrow> [[x]]
            | p # ps \<Rightarrow> (x # p) # ps))"

text \<open>
  \<^verbatim>\<open>toLowerCase\<close> and \<^verbatim>\<open>toUpperCase\<close> on the ASCII letters; every other character
  is left as it is. The file only compares the results with \<^verbatim>\<open>'ed25519'\<close> and
  \<^verbatim>\<open>'ED25519'\<close>, and no character outside ASCII is mapped to a letter or digit of
  these two by JavaScript's full case mapping.
\<close>

definition toLowerCase_char :: "char \<Rightarrow> char" where
  "toLowerCase_char c =
     (let n = (of_char c :: nat) in if 65 \<le> n \<and> n \<le> 90 then char_of (n + 32) else c)"

definition toUpperCase_char :: "char \<Rightarrow> char" where
  "toUpperCase_char c =
     (let n = (of_char c :: nat) in if 97 \<le> n \<and> n \<le> 122 then char_of (n - 32) else c)"

definition toLowerCase :: "string \<Rightarrow> string" where
  "toLowerCase s = map toLowerCase_char s"

definition toUpperCase :: "string \<Rightarrow> string" where
  "toUpperCase s = map toUpperCase_char s"

text \<open>
  An integer in a template literal, \<^verbatim>\<open>`${n}`\<close>: its decimal digits, after a minus sign
  when it is negative.
\<close>

function decimal :: "nat \<Rightarrow> string" where
  "decimal n =
     (if n < 10 then [char_of (48 + n)] else decimal (n div 10) @ [char_of (48 + n mod 10)])"
  by pat_completeness auto
termination
  by (relation "measure (\<lambda>n. n)") auto

declare decimal.simps [simp del]

definition Number_toString :: "int \<Rightarrow> string" where
  "Number_toString k = (if k < 0 then CHR ''-'' # decimal (nat (- k)) else decimal (nat k))"

text \<open>
  \<^verbatim>\<open>new Uint8Array(n)\<close> is \<open>n\<close> zero bytes. \<^verbatim>\<open>a.slice(start, end)\<close> and
  \<^verbatim>\<open>a.slice(start)\<close> with non-negative literals clamp to the length.
  \<^verbatim>\<open>target.set(source, offset)\<close> overwrites in place and throws a
  \<^verbatim>\<open>RangeError\<close> when the source does not fit; the model returns the new contents.
\<close>

definition Uint8Array_new :: "nat \<Rightarrow> bytes" where
  "Uint8Array_new n = replicate n 0"

definition slice :: "bytes \<Rightarrow> nat \<Rightarrow> nat \<Rightarrow> bytes" where
  "slice a start end = take (end - start) (drop start a)"

definition slice_from :: "bytes \<Rightarrow> nat \<Rightarrow> bytes" where
  "slice_from a start = drop start a"

definition Uint8Array_set :: "bytes \<Rightarrow> bytes \<Rightarrow> nat \<Rightarrow> error + bytes" where
  "Uint8Array_set target source offset =
     (if length target < offset + length source then Inl (RangeError ''offset is out of bounds'')
      else Inr (take offset target @ source @ drop (offset + length source) target))"

section \<open>The functions of \<^verbatim>\<open>src/utils/key_pair.ts\<close>\<close>

text \<open>
  \<^verbatim>\<open>key_type_to_str\<close> and \<^verbatim>\<open>str_to_key_type\<close>: the member's case, and the
  \<^verbatim>\<open>default\<close> branch that throws with the offending value in the message.
\<close>

definition key_type_to_str :: "KeyType \<Rightarrow> error + string" where
  "key_type_to_str kt =
     (if kt = ED25519 then Inr ''ed25519''
      else Inl (Error (''Unknown key type '' @ Number_toString kt)))"

definition str_to_key_type :: "string \<Rightarrow> error + KeyType" where
  "str_to_key_type keyTypeStr =
     (if toLowerCase keyTypeStr = ''ed25519'' then Inr ED25519
      else Inl (Error (''Unknown key type '' @ keyTypeStr)))"

subsection \<open>\<^verbatim>\<open>class PublicKey\<close>\<close>

text \<open>
  \<^verbatim>\<open>PublicKey.fromString\<close>. In the two-part branch the object literal evaluates
  \<^verbatim>\<open>str_to_key_type(parts[0])\<close> before \<^verbatim>\<open>base_decode(parts[1])\<close>, so an unknown
  tag is reported before a malformed encoding.
\<close>

definition PublicKey_fromString :: "serialize \<Rightarrow> string \<Rightarrow> error + PublicKey" where
  "PublicKey_fromString S encodedKey =
     (let parts = String_split encodedKey CHR '':'' in
      if length parts = 1 then
        (case base_decode S (parts ! 0) of
           Inl e \<Rightarrow> Inl e
         | Inr d \<Rightarrow> Inr \<lparr>keyType = ED25519, data = d\<rparr>)
      else if length parts = 2 then
        (case str_to_key_type (parts ! 0) of
           Inl e \<Rightarrow> Inl e
         | Inr t \<Rightarrow>
             (case base_decode S (parts ! 1) of
                Inl e \<Rightarrow> Inl e
              | Inr d \<Rightarrow> Inr \<lparr>keyType = t, data = d\<rparr>))
      else Inl (Error ''Invalid encoded key format, must be <curve>:<encoded key>''))"

text \<open>\<^verbatim>\<open>PublicKey.from(value: string | PublicKey)\<close>\<close>

datatype string_or_PublicKey = Str string | PK PublicKey

fun PublicKey_from :: "serialize \<Rightarrow> string_or_PublicKey \<Rightarrow> error + PublicKey" where
  "PublicKey_from S (Str v) = PublicKey_fromString S v"
| "PublicKey_from S (PK v) = Inr v"

text \<open>
  \<^verbatim>\<open>toString\<close>: the template literal evaluates \<^verbatim>\<open>key_type_to_str(this.keyType)\<close>
  first, so its exception is the result for a key type that is not a member.
\<close>

definition PublicKey_toString :: "serialize \<Rightarrow> PublicKey \<Rightarrow> error + string" where
  "PublicKey_toString S this =
     (case key_type_to_str (keyType this) of
        Inl e \<Rightarrow> Inl e
      | Inr tag \<Rightarrow> Inr (tag @ '':'' @ base_encode S (data this)))"

definition PublicKey_verify :: "nacl \<Rightarrow> PublicKey \<Rightarrow> bytes \<Rightarrow> bytes \<Rightarrow> error + bool" where
  "PublicKey_verify N this message sg =
     (if keyType this = ED25519 then sign_detached_verify N message sg (data this)
      else Inl (Error (''Unknown key type '' @ Number_toString (keyType this))))"

subsection \<open>\<^verbatim>\<open>class KeyPairEd25519\<close>\<close>

text \<open>The constructor: decode the secret, let the library derive the pair, keep the string.\<close>

definition KeyPairEd25519_new :: "serialize \<Rightarrow> nacl \<Rightarrow> string \<Rightarrow> error + KeyPairEd25519" where
  "KeyPairEd25519_new S N sk =
     (case base_decode S sk of
        Inl e \<Rightarrow> Inl e
      | Inr raw \<Rightarrow>
          (case sign_keyPair_fromSecretKey N raw of
             Inl e \<Rightarrow> Inl e
           | Inr keyPair \<Rightarrow>
               Inr \<lparr>publicKey = \<lparr>keyType = ED25519, data = nacl_KeyPair.publicKey keyPair\<rparr>,
                    secretKey = sk\<rparr>))"

text \<open>\<^verbatim>\<open>KeyPairEd25519.fromRandom()\<close>; \<open>rnd\<close> is what \<^verbatim>\<open>nacl.sign.keyPair()\<close> draws.\<close>

definition KeyPairEd25519_fromRandom :: "serialize \<Rightarrow> nacl \<Rightarrow> bytes \<Rightarrow> error + KeyPairEd25519" where
  "KeyPairEd25519_fromRandom S N rnd =
     (let newKeyPair = sign_keyPair N rnd
      in KeyPairEd25519_new S N (base_encode S (nacl_KeyPair.secretKey newKeyPair)))"

definition KeyPairEd25519_sign :: "serialize \<Rightarrow> nacl \<Rightarrow> KeyPairEd25519 \<Rightarrow> bytes \<Rightarrow> error + Signature" where
  "KeyPairEd25519_sign S N this message =
     (case base_decode S (secretKey this) of
        Inl e \<Rightarrow> Inl e
      | Inr raw \<Rightarrow>
          (case sign_detached N message raw of
             Inl e \<Rightarrow> Inl e
           | Inr sg \<Rightarrow> Inr \<lparr>signature = sg, Signature.publicKey = publicKey this\<rparr>))"

definition KeyPairEd25519_verify :: "nacl \<Rightarrow> KeyPairEd25519 \<Rightarrow> bytes \<Rightarrow> bytes \<Rightarrow> error + bool" where
  "KeyPairEd25519_verify N this message sg = PublicKey_verify N (publicKey this) message sg"

definition KeyPairEd25519_toString :: "KeyPairEd25519 \<Rightarrow> string" where
  "KeyPairEd25519_toString this = ''ed25519:'' @ secretKey this"

definition getPublicKey :: "KeyPairEd25519 \<Rightarrow> PublicKey" where
  "getPublicKey this = publicKey this"

text \<open>
  \<^verbatim>\<open>encryptMessage\<close>. \<open>rnd\<close> is what \<^verbatim>\<open>nacl.box.keyPair()\<close> draws and \<open>nonce\<close>
  is the result of \<^verbatim>\<open>nacl.randomBytes(24)\<close>. The method does not read \<open>this\<close>.
\<close>

definition encryptMessage ::
  "nacl \<Rightarrow> ed2curve \<Rightarrow> bytes \<Rightarrow> bytes \<Rightarrow> KeyPairEd25519 \<Rightarrow> bytes \<Rightarrow> PublicKey \<Rightarrow> error + bytes" where
  "encryptMessage N E rnd nonce this message receiverPublicKey =
     (let ephemeralKeyPair = box_keyPair N rnd in
      case box N message nonce (convertPublicKey E (data receiverPublicKey))
             (nacl_KeyPair.secretKey ephemeralKeyPair) of
        Inl e \<Rightarrow> Inl e
      | Inr cipher \<Rightarrow>
          (let epk = nacl_KeyPair.publicKey ephemeralKeyPair;
               result = Uint8Array_new (length nonce + length cipher + length epk)
           in case Uint8Array_set result epk 0 of
                Inl e \<Rightarrow> Inl e
              | Inr r1 \<Rightarrow>
                  (case Uint8Array_set r1 nonce (length epk) of
                     Inl e \<Rightarrow> Inl e
                   | Inr r2 \<Rightarrow> Uint8Array_set r2 cipher (length epk + length nonce))))"

definition decryptMessage ::
  "serialize \<Rightarrow> nacl \<Rightarrow> ed2curve \<Rightarrow> KeyPairEd25519 \<Rightarrow> bytes \<Rightarrow> error + bytes option" where
  "decryptMessage S N E this fullCipher =
     (case base_decode S (secretKey this) of
        Inl e \<Rightarrow> Inl e
      | Inr raw \<Rightarrow>
          (let sk = convertSecretKey E raw;
               senderPublicKey = slice fullCipher 0 32;
               nonce = slice fullCipher 32 56;
               cipher = slice_from fullCipher 56
           in box_open N cipher nonce senderPublicKey sk))"

subsection \<open>\<^verbatim>\<open>abstract class KeyPair\<close>: the two static factories\<close>

definition KeyPair_fromRandom :: "serialize \<Rightarrow> nacl \<Rightarrow> bytes \<Rightarrow> string \<Rightarrow> error + KeyPairEd25519" where
  "KeyPair_fromRandom S N rnd curve =
     (if toUpperCase curve = ''ED25519'' then KeyPairEd25519_fromRandom S N rnd
      else Inl (Error (''Unknown curve '' @ curve)))"

definition KeyPair_fromString :: "serialize \<Rightarrow> nacl \<Rightarrow> string \<Rightarrow> error + KeyPairEd25519" where
  "KeyPair_fromString S N encodedKey =
     (let parts = String_split encodedKey CHR '':'' in
      if length parts = 1 then KeyPairEd25519_new S N (parts ! 0)
      else if length parts = 2 then
        (if toUpperCase (parts ! 0) = ''ED25519'' then KeyPairEd25519_new S N (parts ! 1)
         else Inl (Error (''Unknown curve: '' @ parts ! 0)))
      else Inl (Error ''Invalid encoded key format, must be <curve>:<encoded key>''))"

section \<open>The byte codec\<close>

text \<open>
  Modelled from the spec: \<^verbatim>\<open>base_encode\<close> and \<^verbatim>\<open>base_decode\<close> of
  \<^verbatim>\<open>./serialize\<close>, which is not among the source files. The specification describes
  them as a codec between bytes and strings over a base-58 alphabet that can fail on a
  malformed string, and gives encoded keys as examples; the definitions below are base 58
  over the alphabet those examples are written in (a leading zero byte is a leading
  \<^verbatim>\<open>1\<close>). The functions of the source take the codec as the parameter \<open>S\<close>; this
  instance is what the concrete evaluations run on.
\<close>

definition BASE58_ALPHABET :: string where
  "BASE58_ALPHABET = ''123456789ABCDEFGHJKLMNPQRSTUVWXYZabcdefghijkmnopqrstuvwxyz''"

fun index_of :: "'a \<Rightarrow> 'a list \<Rightarrow> int option" where
  "index_of c [] = None"
| "index_of c (x # xs) = (if x = c then Some 0 else map_option (\<lambda>i. i + 1) (index_of c xs))"

definition from_digits :: "int \<Rightarrow> int list \<Rightarrow> int" where
  "from_digits b ds = foldl (\<lambda>acc d. acc * b + d) 0 ds"

function to_digits :: "int \<Rightarrow> int \<Rightarrow> int list" where
  "to_digits b n = (if n \<le> 0 \<or> b < 2 then [] else to_digits b (n div b) @ [n mod b])"
  by pat_completeness auto
termination
  by (relation "measure (\<lambda>(b, n). nat n)") (auto intro!: int_div_less_self)

declare to_digits.simps [simp del]

definition bs58_decode :: "string \<Rightarrow> error + bytes" where
  "bs58_decode s =
     (case those (map (\<lambda>c. index_of c BASE58_ALPHABET) s) of
        None \<Rightarrow> Inl (Error ''Non-base58 character'')
      | Some ds \<Rightarrow>
          Inr (replicate (length (takeWhile (\<lambda>d. d = 0) ds)) 0
               @ map word_of_int (to_digits 256 (from_digits 58 ds))))"

definition bs58_encode :: "bytes \<Rightarrow> string" where
  "bs58_encode b =
     replicate (length (takeWhile (\<lambda>x. x = 0) b)) CHR ''1''
     @ map (\<lambda>d. BASE58_ALPHABET ! nat d) (to_digits 58 (from_digits 256 (map uint b)))"

definition bs58 :: serialize where
  "bs58 = \<lparr>base_encode = bs58_encode, base_decode = bs58_decode\<rparr>"

text \<open>A codec whose alphabet has no colon: what it decodes contains none.\<close>

definition colon_free :: "serialize \<Rightarrow> bool" where
  "colon_free S \<longleftrightarrow> (\<forall>s b. base_decode S s = Inr b \<longrightarrow> CHR '':'' \<notin> set s)"

text \<open>A codec that decodes what it encodes.\<close>

definition codec_round_trip :: "serialize \<Rightarrow> bool" where
  "codec_round_trip S \<longleftrightarrow> (\<forall>b. base_decode S (base_encode S b) = Inr b)"

section \<open>What the file relies on from tweetnacl and ed2curve\<close>

text \<open>
  The two libraries are parameters, so a property of the file that rests on what they
  compute is proved from their contract. \<open>ed25519_contract\<close>: for the key pair the
  library generates from 32 random bytes, \<^verbatim>\<open>nacl.sign.keyPair.fromSecretKey\<close> gives that
  pair back from its secret key, and a detached signature made with the secret key
  verifies under the public key.
\<close>

definition ed25519_contract :: "nacl \<Rightarrow> bool" where
  "ed25519_contract N \<longleftrightarrow>
     (\<forall>rnd m. length rnd = 32 \<longrightarrow>
        sign_keyPair_fromSecretKey N (nacl_KeyPair.secretKey (sign_keyPair N rnd))
          = Inr (sign_keyPair N rnd) \<and>
        (\<exists>sg. sign_detached N m (nacl_KeyPair.secretKey (sign_keyPair N rnd)) = Inr sg \<and>
              sign_detached_verify N m sg (nacl_KeyPair.publicKey (sign_keyPair N rnd)) = Inr True))"


subsection \<open>An instance of the two libraries\<close>

text \<open>
  A small instance with the sizes and the functional contract of the real primitives
  and none of their cryptographic strength. The public key of a seed is the seed with
  every byte increased by one, and a generated secret signing key is the seed followed by
  that public key. \<open>fromSecretKey\<close> accepts any 64 bytes and takes the second half as
  the public key, without deriving it from the first half. A signature is the public key
  derived from the first half of the secret key, followed by the first 32 bytes of the
  zero-padded message; it verifies under the public key it starts with. A box is the
  message behind a 16-byte tag computed from the two keys, and the Curve25519 form of a
  public key is the key with every byte decreased by one. The instance shows that the two
  contracts can be met, and it is what the functions of the file run on where a theorem
  is applied to concrete keys.
\<close>

definition std_public :: "bytes \<Rightarrow> bytes" where
  "std_public seed = map (\<lambda>b. b + 1) seed"

definition std_sign_keyPair :: "bytes \<Rightarrow> nacl_KeyPair" where
  "std_sign_keyPair rnd =
     \<lparr>nacl_KeyPair.publicKey = std_public rnd, secretKey = rnd @ std_public rnd\<rparr>"

definition std_sign_keyPair_fromSecretKey :: "bytes \<Rightarrow> error + nacl_KeyPair" where
  "std_sign_keyPair_fromSecretKey sk =
     (if length sk \<noteq> 64 then Inl (Error ''bad secret key size'')
      else Inr \<lparr>nacl_KeyPair.publicKey = drop 32 sk, secretKey = sk\<rparr>)"

definition std_digest :: "bytes \<Rightarrow> bytes" where
  "std_digest msg = take 32 (msg @ replicate 32 0)"

definition std_sign_detached :: "bytes \<Rightarrow> bytes \<Rightarrow> error + bytes" where
  "std_sign_detached msg sk =
     (if length sk \<noteq> 64 then Inl (Error ''bad secret key size'')
      else Inr (std_public (take 32 sk) @ std_digest msg))"

definition std_sign_detached_verify :: "bytes \<Rightarrow> bytes \<Rightarrow> bytes \<Rightarrow> error + bool" where
  "std_sign_detached_verify msg sg pk =
     (if length sg \<noteq> 64 then Inl (Error ''bad signature size'')
      else if length pk \<noteq> 32 then Inl (Error ''bad public key size'')
      else Inr (sg = pk @ std_digest msg))"

definition std_box_keyPair :: "bytes \<Rightarrow> nacl_KeyPair" where
  "std_box_keyPair rnd = \<lparr>nacl_KeyPair.publicKey = rnd, secretKey = rnd\<rparr>"

definition std_tag :: "bytes \<Rightarrow> bytes \<Rightarrow> bytes" where
  "std_tag pk sk = take 16 (map2 (+) pk sk)"

definition std_box :: "bytes \<Rightarrow> bytes \<Rightarrow> bytes option \<Rightarrow> bytes \<Rightarrow> error + bytes" where
  "std_box msg nonce pk sk =
     (case pk of
        None \<Rightarrow> Inl (Error ''unexpected type, use Uint8Array'')
      | Some p \<Rightarrow>
          if length p \<noteq> 32 then Inl (Error ''bad public key size'')
          else if length sk \<noteq> 32 then Inl (Error ''bad secret key size'')
          else if length nonce \<noteq> 24 then Inl (Error ''bad nonce size'')
          else Inr (std_tag p sk @ msg))"

definition std_box_open :: "bytes \<Rightarrow> bytes \<Rightarrow> bytes \<Rightarrow> bytes \<Rightarrow> error + bytes option" where
  "std_box_open c nonce pk sk =
     (if length pk \<noteq> 32 then Inl (Error ''bad public key size'')
      else if length sk \<noteq> 32 then Inl (Error ''bad secret key size'')
      else if length nonce \<noteq> 24 then Inl (Error ''bad nonce size'')
      else if length c < 16 \<or> take 16 c \<noteq> std_tag pk sk then Inr None
      else Inr (Some (drop 16 c)))"

definition std_nacl :: nacl where
  "std_nacl =
     \<lparr>sign_keyPair = std_sign_keyPair,
      sign_keyPair_fromSecretKey = std_sign_keyPair_fromSecretKey,
      sign_detached = std_sign_detached,
      sign_detached_verify = std_sign_detached_verify,
      box_keyPair = std_box_keyPair,
      box = std_box,
      box_open = std_box_open\<rparr>"

definition std_ed2curve :: ed2curve where
  "std_ed2curve =
     \<lparr>convertPublicKey = (\<lambda>pk. Some (map (\<lambda>b. b - 1) pk)), convertSecretKey = take 32\<rparr>"

text \<open>
  The bytes \<open>1, \<dots>, 32\<close> as a seed and the public key of that seed. \<open>gen_secret\<close> is
  the encoded secret key of the pair generated from the seed, and \<open>gen_kp\<close> the key pair
  the constructor builds from it. \<open>secret1\<close> encodes the seed followed by the seed:
  64 bytes the constructor accepts, whose second half is not the public key of the first;
  \<open>kp1\<close> is the key pair the constructor builds from it.
\<close>

definition seed1 :: bytes where
  "seed1 = map word_of_int [1, 2, 3, 4, 5, 6, 7, 8, 9, 10, 11, 12, 13, 14, 15, 16,
     17, 18, 19, 20, 21, 22, 23, 24, 25, 26, 27, 28, 29, 30, 31, 32]"

definition pub1 :: bytes where
  "pub1 = map word_of_int [2, 3, 4, 5, 6, 7, 8, 9, 10, 11, 12, 13, 14, 15, 16, 17,
     18, 19, 20, 21, 22, 23, 24, 25, 26, 27, 28, 29, 30, 31, 32, 33]"

definition secret1 :: string where
  "secret1 = ''2Ana1pUpv2ZbMVkwF5FXapYeBEjdxDatLn7nvJkhgTSVSTcZp5EXQcqdhXUtqFKpPi5MzPUQFKwNxDG4azRM4jq''"

definition kp1 :: KeyPairEd25519 where
  "kp1 = \<lparr>publicKey = \<lparr>keyType = ED25519, data = seed1\<rparr>, secretKey = secret1\<rparr>"

definition gen_secret :: string where
  "gen_secret = ''2Ana1pUpv2ZbMVkwF5FXapYeBEjdxDatLn7nvJkhgTSVWNui7YF7hv4mnmzL8aF7GUqc9bg5K1kwMsv7y326Q4Y''"

definition gen_kp :: KeyPairEd25519 where
  "gen_kp = \<lparr>publicKey = \<lparr>keyType = ED25519, data = pub1\<rparr>, secretKey = gen_secret\<rparr>"

text \<open>
  The box of the instance for the message \<open>1, \<dots>, 6\<close>, the public key \<open>seed1\<close> and the
  ephemeral secret key of 32 bytes \<open>7\<close>: the 16-byte tag, then the message.
\<close>

definition cipher1 :: bytes where
  "cipher1 = [7, 8, 9, 10, 11, 12, 13, 14, 15, 16, 17, 18, 19, 20, 21, 22, 1, 2, 3, 4, 5, 6]"

section \<open>Strings: splitting and case mapping\<close>

lemma String_split_not_Nil: "String_split s c \<noteq> []"
  by (induction s) (auto split: list.splits)

lemma length_String_split: "length (String_split s c) = Suc (count_list s c)"
proof (induction s)
  case Nil
  show ?case by simp
next
  case (Cons x xs)
  then show ?case
    using String_split_not_Nil [of xs c] by (auto split: list.splits)
qed

lemma String_split_no_sep: "c \<notin> set s \<Longrightarrow> String_split s c = [s]"
  by (induction s) auto

lemma String_split_append: "c \<notin> set a \<Longrightarrow> String_split (a @ c # b) c = a # String_split b c"
  by (induction a) auto

lemma String_split_two: "c \<notin> set a \<Longrightarrow> c \<notin> set b \<Longrightarrow> String_split (a @ c # b) c = [a, b]"
  by (simp add: String_split_append String_split_no_sep)

lemma count_list_0_iff_notin: "count_list s c = 0 \<longleftrightarrow> c \<notin> set s"
  by (induction s) auto

lemma toLowerCase_toUpperCase_char: "toLowerCase_char (toUpperCase_char c) = toLowerCase_char c"
  by (auto simp: toLowerCase_char_def toUpperCase_char_def Let_def)

lemma toUpperCase_toLowerCase_char: "toUpperCase_char (toLowerCase_char c) = toUpperCase_char c"
  by (auto simp: toLowerCase_char_def toUpperCase_char_def Let_def)

lemma toLowerCase_toUpperCase: "toLowerCase (toUpperCase s) = toLowerCase s"
  by (simp add: toLowerCase_def toUpperCase_def toLowerCase_toUpperCase_char)

lemma toUpperCase_toLowerCase: "toUpperCase (toLowerCase s) = toUpperCase s"
  by (simp add: toLowerCase_def toUpperCase_def toUpperCase_toLowerCase_char)

lemma lower_tag: "toLowerCase ''ED25519'' = ''ed25519''"
  by code_simp

lemma upper_tag: "toUpperCase ''ed25519'' = ''ED25519''"
  by code_simp

lemma lower_tag_idem: "toLowerCase ''ed25519'' = ''ed25519''"
  by code_simp

lemma tag_upper_iff_lower: "toUpperCase t = ''ED25519'' \<longleftrightarrow> toLowerCase t = ''ed25519''"
proof
  assume "toUpperCase t = ''ED25519''"
  then have "toLowerCase (toUpperCase t) = toLowerCase ''ED25519''" by simp
  then show "toLowerCase t = ''ed25519''"
    by (simp only: toLowerCase_toUpperCase lower_tag)
next
  assume "toLowerCase t = ''ed25519''"
  then have "toUpperCase (toLowerCase t) = toUpperCase ''ed25519''" by simp
  then show "toUpperCase t = ''ED25519''"
    by (simp only: toUpperCase_toLowerCase upper_tag)
qed

lemma one_sep_decomp:
  "count_list s c = 1 \<Longrightarrow> \<exists>a b. s = a @ c # b \<and> c \<notin> set a \<and> c \<notin> set b"
proof (induction s)
  case Nil
  then show ?case by simp
next
  case (Cons x xs)
  show ?case
  proof (cases "x = c")
    case True
    with Cons.prems have "count_list xs c = 0" by simp
    then have "c \<notin> set xs" by (simp add: count_list_0_iff_notin)
    with True have "x # xs = [] @ c # xs \<and> c \<notin> set [] \<and> c \<notin> set xs" by simp
    then show ?thesis by blast
  next
    case False
    with Cons.prems have "count_list xs c = 1" by simp
    from Cons.IH [OF this] obtain a b where "xs = a @ c # b" "c \<notin> set a" "c \<notin> set b" by blast
    with False have "x # xs = (x # a) @ c # b \<and> c \<notin> set (x # a) \<and> c \<notin> set b" by auto
    then show ?thesis by blast
  qed
qed

subsection \<open>The two parsers, by the number of colons\<close>

lemma PublicKey_fromString_bare:
  "CHR '':'' \<notin> set s \<Longrightarrow>
   PublicKey_fromString S s =
     (case base_decode S s of Inl e \<Rightarrow> Inl e | Inr d \<Rightarrow> Inr \<lparr>keyType = ED25519, data = d\<rparr>)"
  by (simp add: PublicKey_fromString_def String_split_no_sep)

lemma PublicKey_fromString_tagged:
  "CHR '':'' \<notin> set tag \<Longrightarrow> CHR '':'' \<notin> set enc \<Longrightarrow>
   PublicKey_fromString S (tag @ '':'' @ enc) =
     (if toLowerCase tag = ''ed25519''
      then (case base_decode S enc of Inl e \<Rightarrow> Inl e | Inr d \<Rightarrow> Inr \<lparr>keyType = ED25519, data = d\<rparr>)
      else Inl (Error (''Unknown key type '' @ tag)))"
  by (simp add: PublicKey_fromString_def String_split_two str_to_key_type_def)

lemma KeyPair_fromString_bare:
  "CHR '':'' \<notin> set s \<Longrightarrow> KeyPair_fromString S N s = KeyPairEd25519_new S N s"
  by (simp add: KeyPair_fromString_def String_split_no_sep)

lemma KeyPair_fromString_tagged:
  "CHR '':'' \<notin> set tag \<Longrightarrow> CHR '':'' \<notin> set enc \<Longrightarrow>
   KeyPair_fromString S N (tag @ '':'' @ enc) =
     (if toLowerCase tag = ''ed25519'' then KeyPairEd25519_new S N enc
      else Inl (Error (''Unknown curve: '' @ tag)))"
  by (simp add: KeyPair_fromString_def String_split_two tag_upper_iff_lower)

lemma PublicKey_fromString_many:
  "2 \<le> count_list s CHR '':'' \<Longrightarrow>
   PublicKey_fromString S s = Inl (Error ''Invalid encoded key format, must be <curve>:<encoded key>'')"
  by (simp add: PublicKey_fromString_def length_String_split)

lemma KeyPair_fromString_many:
  "2 \<le> count_list s CHR '':'' \<Longrightarrow>
   KeyPair_fromString S N s = Inl (Error ''Invalid encoded key format, must be <curve>:<encoded key>'')"
  by (simp add: KeyPair_fromString_def length_String_split)

subsection \<open>The codec instance\<close>

lemma index_of_Some_mem: "index_of c xs = Some i \<Longrightarrow> c \<in> set xs"
  by (induction xs arbitrary: i) (auto split: if_splits)

lemma those_map_Some: "those (map f xs) = Some ys \<Longrightarrow> x \<in> set xs \<Longrightarrow> \<exists>y. f x = Some y"
  by (induction xs arbitrary: ys) (auto split: option.splits)

lemma colon_not_base58: "CHR '':'' \<notin> set BASE58_ALPHABET"
  by (simp add: BASE58_ALPHABET_def)

lemma bs58_colon_free: "colon_free bs58"
  unfolding colon_free_def
proof (intro allI impI)
  fix s b
  assume dec: "base_decode bs58 s = Inr b"
  show "CHR '':'' \<notin> set s"
  proof
    assume mem: "CHR '':'' \<in> set s"
    from dec obtain ds where "those (map (\<lambda>c. index_of c BASE58_ALPHABET) s) = Some ds"
      by (auto simp: bs58_def bs58_decode_def split: option.splits)
    from those_map_Some [OF this mem] obtain i where "index_of CHR '':'' BASE58_ALPHABET = Some i"
      by blast
    then have "CHR '':'' \<in> set BASE58_ALPHABET" by (rule index_of_Some_mem)
    with colon_not_base58 show False by contradiction
  qed
qed

subsection \<open>Digits\<close>

lemma from_digits_snoc: "from_digits b (xs @ [d]) = from_digits b xs * b + d"
  by (simp add: from_digits_def)

lemma from_digits_Nil: "from_digits b [] = 0"
  by (simp add: from_digits_def)

lemma from_digits_single: "from_digits b [d] = d"
  by (simp add: from_digits_def)

lemma to_digits_nonpos: "n \<le> 0 \<Longrightarrow> to_digits b n = []"
  by (subst to_digits.simps) simp

lemma to_digits_pos: "0 < n \<Longrightarrow> 2 \<le> b \<Longrightarrow> to_digits b n = to_digits b (n div b) @ [n mod b]"
  by (subst to_digits.simps) simp

lemma from_digits_to_digits: "2 \<le> b \<Longrightarrow> 0 \<le> n \<Longrightarrow> from_digits b (to_digits b n) = n"
proof (induction b n rule: to_digits.induct)
  case (1 b n)
  show ?case
  proof (cases "n = 0")
    case True
    then show ?thesis by (simp add: to_digits_nonpos from_digits_Nil)
  next
    case False
    with 1 have pos: "0 < n" by simp
    with 1 have "from_digits b (to_digits b (n div b)) = n div b"
      by (simp add: pos_imp_zdiv_nonneg_iff)
    with pos 1 show ?thesis by (simp add: to_digits_pos from_digits_snoc)
  qed
qed

lemma to_digits_range: "2 \<le> b \<Longrightarrow> d \<in> set (to_digits b n) \<Longrightarrow> 0 \<le> d \<and> d < b"
proof (induction b n rule: to_digits.induct)
  case (1 b n)
  show ?case
  proof (cases "0 < n")
    case False
    with 1 show ?thesis by (simp add: to_digits_nonpos)
  next
    case True
    with 1 show ?thesis by (auto simp: to_digits_pos)
  qed
qed

lemma to_digits_Nil_iff: "2 \<le> b \<Longrightarrow> to_digits b n = [] \<longleftrightarrow> n \<le> 0"
  by (cases "0 < n") (simp_all add: to_digits_pos to_digits_nonpos)

lemma to_digits_no_leading_zero: "2 \<le> b \<Longrightarrow> to_digits b n \<noteq> [] \<Longrightarrow> hd (to_digits b n) \<noteq> 0"
proof (induction b n rule: to_digits.induct)
  case (1 b n)
  note b2 = "1.prems"(1) and ne = "1.prems"(2)
  from b2 ne have pos: "0 < n" by (simp add: to_digits_Nil_iff)
  show ?case
  proof (cases "n < b")
    case True
    with pos have "n div b = 0" and "n mod b = n" by simp_all
    with pos b2 have "to_digits b n = [n]" by (simp add: to_digits_pos to_digits_nonpos)
    with pos show ?thesis by simp
  next
    case False
    with b2 have d: "0 < n div b" by (simp add: pos_imp_zdiv_pos_iff)
    with b2 have ne': "to_digits b (n div b) \<noteq> []" by (simp add: to_digits_Nil_iff)
    from pos b2 have "\<not> (n \<le> 0 \<or> b < 2)" by simp
    from "1.IH" [OF this b2 ne'] have "hd (to_digits b (n div b)) \<noteq> 0" .
    with pos b2 ne' show ?thesis by (simp add: to_digits_pos)
  qed
qed

lemma from_digits_nonneg: "0 \<le> b \<Longrightarrow> \<forall>d\<in>set ds. 0 \<le> d \<Longrightarrow> 0 \<le> from_digits b ds"
  by (induction ds rule: rev_induct) (simp_all add: from_digits_Nil from_digits_snoc)

lemma from_digits_pos:
  "2 \<le> b \<Longrightarrow> \<forall>d\<in>set ds. 0 \<le> d \<Longrightarrow> ds \<noteq> [] \<Longrightarrow> hd ds \<noteq> 0 \<Longrightarrow> 0 < from_digits b ds"
proof (induction ds rule: rev_induct)
  case Nil
  then show ?case by simp
next
  case (snoc d xs)
  show ?case
  proof (cases "xs = []")
    case True
    with snoc.prems show ?thesis by (simp add: from_digits_single)
  next
    case False
    with snoc have "0 < from_digits b xs" by simp
    moreover from snoc.prems have "0 \<le> d" by simp
    moreover from snoc.prems have "0 < b" by simp
    ultimately show ?thesis by (simp add: from_digits_snoc add_pos_nonneg)
  qed
qed

lemma to_digits_from_digits:
  "2 \<le> b \<Longrightarrow> \<forall>d\<in>set ds. 0 \<le> d \<and> d < b \<Longrightarrow> (ds \<noteq> [] \<longrightarrow> hd ds \<noteq> 0) \<Longrightarrow>
   to_digits b (from_digits b ds) = ds"
proof (induction ds rule: rev_induct)
  case Nil
  then show ?case by (simp add: from_digits_Nil to_digits_nonpos)
next
  case (snoc d xs)
  from snoc.prems have d: "0 \<le> d" "d < b" by simp_all
  from snoc.prems have xs: "\<forall>d\<in>set xs. 0 \<le> d \<and> d < b" "xs \<noteq> [] \<longrightarrow> hd xs \<noteq> 0" by auto
  with snoc have ih: "to_digits b (from_digits b xs) = xs" by simp
  have pos: "0 < from_digits b (xs @ [d])"
    using snoc.prems by (intro from_digits_pos) auto
  have "(from_digits b xs * b + d) div b = from_digits b xs"
    using d by simp
  moreover have "(from_digits b xs * b + d) mod b = d"
    using d by simp
  ultimately show ?case
    using pos snoc.prems(1) ih by (simp add: to_digits_pos from_digits_snoc)
qed

lemma from_digits_leading_zeros: "from_digits b (replicate z 0 @ ds) = from_digits b ds"
  by (induction z) (simp_all add: from_digits_def)

lemma index_of_nth: "distinct xs \<Longrightarrow> i < length xs \<Longrightarrow> index_of (xs ! i) xs = Some (int i)"
proof (induction xs arbitrary: i)
  case Nil
  then show ?case by simp
next
  case (Cons x xs)
  show ?case
  proof (cases i)
    case 0
    then show ?thesis by simp
  next
    case (Suc j)
    with Cons.prems have "j < length xs" and "xs ! j \<noteq> x" by auto
    with Cons.IH [of j] Cons.prems Suc show ?thesis by auto
  qed
qed

lemma distinct_alphabet: "distinct BASE58_ALPHABET"
  by (simp add: BASE58_ALPHABET_def)

lemma length_alphabet: "length BASE58_ALPHABET = 58"
  by (simp add: BASE58_ALPHABET_def)

lemma index_of_alphabet:
  assumes "0 \<le> d" and "d < 58"
  shows "index_of (BASE58_ALPHABET ! nat d) BASE58_ALPHABET = Some d"
  using index_of_nth [OF distinct_alphabet, of "nat d"] assms by (simp add: length_alphabet)

lemma index_of_one: "index_of CHR ''1'' BASE58_ALPHABET = Some 0"
  by (simp add: BASE58_ALPHABET_def)

lemma those_map_Some_eq: "\<forall>x\<in>set xs. f x = Some (g x) \<Longrightarrow> those (map f xs) = Some (map g xs)"
  by (induction xs) simp_all

lemma takeWhile_zeros_then: "(ds \<noteq> [] \<longrightarrow> hd ds \<noteq> 0) \<Longrightarrow>
    takeWhile (\<lambda>d. d = 0) (replicate z (0::int) @ ds) = replicate z 0"
  by (induction z) (auto simp: takeWhile_eq_Nil_iff)

lemma replicate_takeWhile_zero: "replicate (length (takeWhile (\<lambda>x. x = c) b)) c = takeWhile (\<lambda>x. x = c) b"
  by (induction b) simp_all

lemma bs58_round_trip: "codec_round_trip bs58"
  unfolding codec_round_trip_def
proof
  fix b :: bytes
  define z where "z = length (takeWhile (\<lambda>x. x = 0) b)"
  define b' where "b' = dropWhile (\<lambda>x. x = 0) b"
  define N where "N = from_digits 256 (map uint b)"
  define D where "D = to_digits 58 N"
  have b_split: "b = replicate z 0 @ b'"
    by (simp add: z_def b'_def replicate_takeWhile_zero)
  have b'_lead: "b' \<noteq> [] \<longrightarrow> hd b' \<noteq> 0"
    using hd_dropWhile [of "\<lambda>x. x = 0" b] by (simp add: b'_def)
  have N_b': "N = from_digits 256 (map uint b')"
    unfolding N_def by (subst b_split) (simp add: from_digits_leading_zeros)
  have N_nonneg: "0 \<le> N"
    unfolding N_def by (rule from_digits_nonneg) auto
  have bytes_back: "to_digits 256 N = map uint b'"
    unfolding N_b'
  proof (rule to_digits_from_digits)
    show "(2::int) \<le> 256" by simp
    show "\<forall>d\<in>set (map uint b'). 0 \<le> d \<and> d < 256"
      using uint_lt2p [where 'a = 8] by auto
    show "map uint b' \<noteq> [] \<longrightarrow> hd (map uint b') \<noteq> 0"
      using b'_lead by (auto simp: hd_map unsigned_eq_0_iff)
  qed
  have D_range: "\<forall>d\<in>set D. 0 \<le> d \<and> d < 58"
    unfolding D_def using to_digits_range [of 58 _ N] by simp
  have D_lead: "D \<noteq> [] \<longrightarrow> hd D \<noteq> 0"
    unfolding D_def using to_digits_no_leading_zero [of 58 N] by simp
  have D_val: "from_digits 58 D = N"
    unfolding D_def using N_nonneg by (simp add: from_digits_to_digits)
  have enc: "base_encode bs58 b = replicate z CHR ''1'' @ map (\<lambda>d. BASE58_ALPHABET ! nat d) D"
    by (simp add: bs58_def bs58_encode_def z_def D_def N_def)
  have idx: "those (map (\<lambda>c. index_of c BASE58_ALPHABET) (base_encode bs58 b))
      = Some (replicate z 0 @ D)"
  proof -
    have "map (\<lambda>c. index_of c BASE58_ALPHABET) (base_encode bs58 b)
        = map Some (replicate z 0 @ D)"
      using D_range by (simp add: enc index_of_one index_of_alphabet)
    then show ?thesis
      using those_map_Some_eq [of "replicate z 0 @ D" Some "\<lambda>x. x"] by simp
  qed
  have "base_decode bs58 (base_encode bs58 b)
      = Inr (replicate z 0 @ map word_of_int (to_digits 256 N))"
    using D_lead
    by (simp add: bs58_def bs58_decode_def idx [unfolded bs58_def, simplified]
        takeWhile_zeros_then from_digits_leading_zeros D_val)
  also have "\<dots> = Inr b"
    by (simp add: bytes_back b_split [symmetric] comp_def)
  finally show "base_decode bs58 (base_encode bs58 b) = Inr b" .
qed

lemma decode_abc: "base_decode bs58 ''abc'' = Inr [1, 185, 123]"
  by code_simp

lemma encode_abc: "base_encode bs58 [1, 185, 123] = ''abc''"
  by code_simp

lemma decode_secret1: "base_decode bs58 secret1 = Inr (seed1 @ seed1)"
  by code_simp

lemma secret1_no_colon: "CHR '':'' \<notin> set secret1"
  by (simp add: secret1_def)

lemma length_seed1: "length seed1 = 32"
  by (simp add: seed1_def)

lemma new_kp1: "KeyPairEd25519_new bs58 std_nacl secret1 = Inr kp1"
  by (simp add: KeyPairEd25519_new_def decode_secret1 std_nacl_def
      std_sign_keyPair_fromSecretKey_def length_seed1 kp1_def)

lemma length_pub1: "length pub1 = 32"
  by (simp add: pub1_def)

lemma std_public_seed1: "std_public seed1 = pub1"
  by code_simp

lemma pub1_not_seed1: "pub1 \<noteq> seed1"
  by code_simp

lemma decode_gen_secret: "base_decode bs58 gen_secret = Inr (seed1 @ pub1)"
  by code_simp

lemma new_gen_kp: "KeyPairEd25519_new bs58 std_nacl gen_secret = Inr gen_kp"
  by (simp add: KeyPairEd25519_new_def decode_gen_secret std_nacl_def
      std_sign_keyPair_fromSecretKey_def length_seed1 length_pub1 gen_kp_def)

lemma gen_secret_generated:
  "base_decode bs58 gen_secret = Inr (nacl_KeyPair.secretKey (sign_keyPair std_nacl seed1))"
  by (simp add: decode_gen_secret std_nacl_def std_sign_keyPair_def std_public_seed1)

lemma unknown_key_type_1: "key_type_to_str 1 = Inl (Error ''Unknown key type 1'')"
  by code_simp

subsection \<open>The envelope\<close>

lemma encryptMessage_envelope:
  "encryptMessage N E rnd nonce this m rpk =
     (case box N m nonce (convertPublicKey E (data rpk)) (nacl_KeyPair.secretKey (box_keyPair N rnd)) of
        Inl e \<Rightarrow> Inl e
      | Inr cipher \<Rightarrow> Inr (nacl_KeyPair.publicKey (box_keyPair N rnd) @ nonce @ cipher))"
  by (simp add: encryptMessage_def Let_def Uint8Array_set_def Uint8Array_new_def split: sum.splits)

lemma slices_of_envelope:
  assumes "length epk = 32" and "length nonce = 24"
  shows "slice (epk @ nonce @ c) 0 32 = epk"
    and "slice (epk @ nonce @ c) 32 56 = nonce"
    and "slice_from (epk @ nonce @ c) 56 = c"
  using assms by (simp_all add: slice_def slice_from_def)

lemma decryptMessage_envelope:
  assumes "base_decode S (secretKey kp) = Inr raw" and "length epk = 32" and "length nonce = 24"
  shows "decryptMessage S N E kp (epk @ nonce @ c) = box_open N c nonce epk (convertSecretKey E raw)"
  using assms by (simp add: decryptMessage_def Let_def slices_of_envelope)

lemma KeyPairEd25519_new_generated:
  assumes "ed25519_contract N" and "length seed = 32"
    and "base_decode S s = Inr (nacl_KeyPair.secretKey (sign_keyPair N seed))"
  shows "KeyPairEd25519_new S N s =
    Inr \<lparr>publicKey = \<lparr>keyType = ED25519, data = nacl_KeyPair.publicKey (sign_keyPair N seed)\<rparr>,
         secretKey = s\<rparr>"
proof -
  from assms(1,2) have "sign_keyPair_fromSecretKey N (nacl_KeyPair.secretKey (sign_keyPair N seed))
      = Inr (sign_keyPair N seed)"
    unfolding ed25519_contract_def by blast
  with assms(3) show ?thesis by (simp add: KeyPairEd25519_new_def)
qed

subsection \<open>The instance meets the two contracts\<close>

lemma length_std_digest: "length (std_digest msg) = 32"
  by (simp add: std_digest_def del: take_append)

lemma length_std_public: "length (std_public seed) = length seed"
  by (simp add: std_public_def)


lemma std_ed25519_contract: "ed25519_contract std_nacl"
  by (simp add: ed25519_contract_def std_nacl_def std_sign_keyPair_def
      std_sign_keyPair_fromSecretKey_def std_sign_detached_def std_sign_detached_verify_def
      length_std_digest length_std_public)





lemma lower_rsa: "toLowerCase ''rsa'' \<noteq> ''ed25519''"
  by code_simp

lemma cipher1: "std_tag (map (\<lambda>b. b - 1) seed1) (replicate 32 7) @ [1, 2, 3, 4, 5, 6] = cipher1"
  by code_simp

lemma encrypt_kp1:
  "encryptMessage std_nacl std_ed2curve (replicate 32 7) (replicate 24 9) kp1 [1, 2, 3, 4, 5, 6]
      (getPublicKey kp1) = Inr (replicate 32 7 @ replicate 24 9 @ cipher1)"
  by (simp add: encryptMessage_envelope std_nacl_def std_ed2curve_def std_box_keyPair_def
      std_box_def getPublicKey_def kp1_def length_seed1 cipher1)


section \<open>The claims\<close>




text \<open>
  C3, as amended. A signature made by a key pair verifies under the same key pair, for
  every message, when the secret key of the key pair is a genuine one: for the key pair
  constructed from the encoded secret key of a pair the library generated, and for the
  key pair \<^verbatim>\<open>fromRandom\<close> returns when the codec decodes what it encodes. In both cases
  the constructor and \<^verbatim>\<open>sign\<close> return, and \<^verbatim>\<open>verify\<close> returns \<^verbatim>\<open>true\<close> on the
  signature.
\<close>

theorem sign_verify_round_trip:
  assumes "ed25519_contract N" and "length seed = 32"
  shows "(base_decode S s = Inr (nacl_KeyPair.secretKey (sign_keyPair N seed)) \<longrightarrow>
          (\<exists>kp sg. KeyPairEd25519_new S N s = Inr kp \<and>
             KeyPairEd25519_sign S N kp m = Inr sg \<and>
             KeyPairEd25519_verify N kp m (signature sg) = Inr True))
       \<and> (codec_round_trip S \<longrightarrow>
          (\<exists>kp sg. KeyPairEd25519_fromRandom S N seed = Inr kp \<and>
             KeyPairEd25519_sign S N kp m = Inr sg \<and>
             KeyPairEd25519_verify N kp m (signature sg) = Inr True))"
proof -
  let ?ed = "sign_keyPair N seed"
  have main: "\<exists>kp sg. KeyPairEd25519_new S N t = Inr kp \<and>
             KeyPairEd25519_sign S N kp m = Inr sg \<and>
             KeyPairEd25519_verify N kp m (signature sg) = Inr True"
    if d: "base_decode S t = Inr (nacl_KeyPair.secretKey ?ed)" for t
  proof -
    let ?kp = "\<lparr>publicKey = \<lparr>keyType = ED25519, data = nacl_KeyPair.publicKey ?ed\<rparr>,
                secretKey = t\<rparr>"
    have new: "KeyPairEd25519_new S N t = Inr ?kp"
      using assms d by (rule KeyPairEd25519_new_generated)
    from assms obtain sg where
      s: "sign_detached N m (nacl_KeyPair.secretKey ?ed) = Inr sg"
      and v: "sign_detached_verify N m sg (nacl_KeyPair.publicKey ?ed) = Inr True"
      unfolding ed25519_contract_def by blast
    have sign: "KeyPairEd25519_sign S N ?kp m
        = Inr \<lparr>signature = sg, Signature.publicKey = publicKey ?kp\<rparr>"
      using d s by (simp add: KeyPairEd25519_sign_def)
    have "KeyPairEd25519_verify N ?kp m sg = Inr True"
      using v by (simp add: KeyPairEd25519_verify_def PublicKey_verify_def)
    with new sign show ?thesis by simp
  qed
  have rnd: "\<exists>kp sg. KeyPairEd25519_fromRandom S N seed = Inr kp \<and>
             KeyPairEd25519_sign S N kp m = Inr sg \<and>
             KeyPairEd25519_verify N kp m (signature sg) = Inr True"
    if "codec_round_trip S"
    using main [of "base_encode S (nacl_KeyPair.secretKey ?ed)"] that
    by (simp add: KeyPairEd25519_fromRandom_def Let_def codec_round_trip_def)
  from main [of s] rnd show ?thesis by blast
qed

theorem sign_verify_round_trip_witness:
  "(\<exists>sg. KeyPairEd25519_new bs58 std_nacl gen_secret = Inr gen_kp \<and>
      KeyPairEd25519_sign bs58 std_nacl gen_kp [1, 2, 3, 4, 5, 6] = Inr sg \<and>
      KeyPairEd25519_verify std_nacl gen_kp [1, 2, 3, 4, 5, 6] (signature sg) = Inr True)
   \<and> (\<exists>kp sg. KeyPairEd25519_fromRandom bs58 std_nacl seed1 = Inr kp \<and>
      KeyPairEd25519_sign bs58 std_nacl kp [1, 2, 3, 4, 5, 6] = Inr sg \<and>
      KeyPairEd25519_verify std_nacl kp [1, 2, 3, 4, 5, 6] (signature sg) = Inr True)"
proof -
  from sign_verify_round_trip [OF std_ed25519_contract length_seed1,
      of bs58 gen_secret "[1, 2, 3, 4, 5, 6]"]
  show ?thesis by (simp add: gen_secret_generated new_gen_kp bs58_round_trip)
qed

text \<open>
  As stated for every key pair, the claim fails: for \<open>kp1\<close>, which the constructor
  builds from 64 encoded bytes whose second half is not the public key of the first, with
  a library that meets the contract, \<^verbatim>\<open>sign\<close> signs with the secret half, \<^verbatim>\<open>verify\<close>
  checks against the stored public key, and the result is \<^verbatim>\<open>false\<close>.
\<close>

theorem sign_verify_fails_on_mismatched_secret:
  "ed25519_contract std_nacl
   \<and> KeyPairEd25519_new bs58 std_nacl secret1 = Inr kp1
   \<and> KeyPairEd25519_sign bs58 std_nacl kp1 [1, 2, 3, 4, 5, 6]
        = Inr \<lparr>signature = pub1 @ std_digest [1, 2, 3, 4, 5, 6],
               Signature.publicKey = publicKey kp1\<rparr>
   \<and> KeyPairEd25519_verify std_nacl kp1 [1, 2, 3, 4, 5, 6] (pub1 @ std_digest [1, 2, 3, 4, 5, 6])
        = Inr False"
proof -
  have s: "KeyPairEd25519_sign bs58 std_nacl kp1 [1, 2, 3, 4, 5, 6]
      = Inr \<lparr>signature = pub1 @ std_digest [1, 2, 3, 4, 5, 6],
             Signature.publicKey = publicKey kp1\<rparr>"
    by (simp add: KeyPairEd25519_sign_def kp1_def decode_secret1 std_nacl_def
        std_sign_detached_def length_seed1 std_public_seed1)
  have v: "KeyPairEd25519_verify std_nacl kp1 [1, 2, 3, 4, 5, 6]
      (pub1 @ std_digest [1, 2, 3, 4, 5, 6]) = Inr False"
    by (simp add: KeyPairEd25519_verify_def PublicKey_verify_def kp1_def std_nacl_def
        std_sign_detached_verify_def length_seed1 length_pub1 length_std_digest pub1_not_seed1)
  from s v show ?thesis by (simp add: std_ed25519_contract new_kp1)
qed

text \<open>
  C5. For every key pair \<open>kp\<close> (what the constructor returns for an encoded secret),
  \<^verbatim>\<open>KeyPair.fromString(kp.toString())\<close> returns a key pair with the same secret key, in
  fact \<open>kp\<close> itself, when the codec's alphabet has no colon; and for every string
  \<^verbatim>\<open><tag>:<encoded>\<close> with the canonical lower-case tag that \<^verbatim>\<open>KeyPair.fromString\<close>
  accepts, \<^verbatim>\<open>toString\<close> of the result is that string.
\<close>

theorem KeyPair_string_round_trip:
  "(colon_free S \<and> KeyPairEd25519_new S N s = Inr kp \<longrightarrow>
      (\<exists>kp'. KeyPair_fromString S N (KeyPairEd25519_toString kp) = Inr kp' \<and>
             secretKey kp' = secretKey kp \<and> kp' = kp))
   \<and> (key_type_to_str t = Inr tag \<and>
       KeyPair_fromString S N (tag @ '':'' @ enc) = Inr kp2 \<longrightarrow>
        KeyPairEd25519_toString kp2 = tag @ '':'' @ enc)"
proof (intro conjI impI)
  assume h: "colon_free S \<and> KeyPairEd25519_new S N s = Inr kp"
  then have sk: "secretKey kp = s"
    by (auto simp: KeyPairEd25519_new_def split: sum.splits)
  from h obtain raw where "base_decode S s = Inr raw"
    by (auto simp: KeyPairEd25519_new_def split: sum.splits)
  with h have nc: "CHR '':'' \<notin> set s"
    by (auto simp: colon_free_def)
  have "KeyPair_fromString S N (''ed25519'' @ '':'' @ s) = KeyPairEd25519_new S N s"
    using KeyPair_fromString_tagged [of "''ed25519''" s S N] nc lower_tag_idem by simp
  with h sk have "KeyPair_fromString S N (KeyPairEd25519_toString kp) = Inr kp"
    by (simp add: KeyPairEd25519_toString_def)
  then show "\<exists>kp'. KeyPair_fromString S N (KeyPairEd25519_toString kp) = Inr kp' \<and>
      secretKey kp' = secretKey kp \<and> kp' = kp"
    by simp
next
  assume a: "key_type_to_str t = Inr tag \<and>
      KeyPair_fromString S N (tag @ '':'' @ enc) = Inr kp2"
  then have t: "tag = ''ed25519''"
    by (auto simp: key_type_to_str_def split: if_splits)
  from a have h: "KeyPair_fromString S N (tag @ '':'' @ enc) = Inr kp2" by simp
  show "KeyPairEd25519_toString kp2 = tag @ '':'' @ enc"
  proof (cases "CHR '':'' \<in> set enc")
    case True
    then have "count_list enc CHR '':'' \<noteq> 0" by (simp add: count_list_0_iff_notin)
    then have "2 \<le> count_list (''ed25519'' @ '':'' @ enc) CHR '':''" by simp
    from KeyPair_fromString_many [OF this, of S N] h t show ?thesis by simp
  next
    case False
    then have "KeyPair_fromString S N (''ed25519'' @ '':'' @ enc) = KeyPairEd25519_new S N enc"
      using KeyPair_fromString_tagged [of "''ed25519''" enc S N] lower_tag_idem by simp
    with h t have "KeyPairEd25519_new S N enc = Inr kp2" by simp
    then have "secretKey kp2 = enc"
      by (auto simp: KeyPairEd25519_new_def split: sum.splits)
    with t show ?thesis by (simp add: KeyPairEd25519_toString_def)
  qed
qed

theorem KeyPair_string_round_trip_witness:
  "colon_free bs58 \<and> KeyPairEd25519_new bs58 std_nacl secret1 = Inr kp1
   \<and> KeyPair_fromString bs58 std_nacl (KeyPairEd25519_toString kp1) = Inr kp1
   \<and> KeyPair_fromString bs58 std_nacl (''ed25519:'' @ secret1) = Inr kp1
   \<and> KeyPairEd25519_toString kp1 = ''ed25519:'' @ secret1"
proof -
  have ts: "KeyPairEd25519_toString kp1 = ''ed25519:'' @ secret1"
    by (simp add: KeyPairEd25519_toString_def kp1_def)
  have rt: "KeyPair_fromString bs58 std_nacl (KeyPairEd25519_toString kp1) = Inr kp1"
    using KeyPair_string_round_trip [of bs58 std_nacl secret1 kp1 ED25519 "''ed25519''" secret1 kp1]
      bs58_colon_free new_kp1 by simp
  with ts have "KeyPair_fromString bs58 std_nacl (''ed25519:'' @ secret1) = Inr kp1" by simp
  with rt ts bs58_colon_free new_kp1 show ?thesis by simp
qed

text \<open>
  C6. For every input string of \<^verbatim>\<open>PublicKey.fromString\<close> and \<^verbatim>\<open>KeyPair.fromString\<close>:
  with no colon the whole string is the encoded key and the curve is ED25519; with
  exactly one colon the string is \<^verbatim>\<open><curve>:<encoded>\<close>, and the part after the colon
  is the encoded key when the tag is \<^verbatim>\<open>ed25519\<close> in any mix of upper and lower case;
  with one colon and any other tag the call fails with the unknown-key-type error
  (\<^verbatim>\<open>PublicKey\<close>) or the unknown-curve error (\<^verbatim>\<open>KeyPair\<close>), whatever follows the colon;
  with two or more colons both fail with the format error.
\<close>

theorem fromString_by_colon_count:
  "(count_list s0 CHR '':'' = 0 \<longrightarrow>
      PublicKey_fromString S s0 =
        (case base_decode S s0 of Inl e \<Rightarrow> Inl e | Inr d \<Rightarrow> Inr \<lparr>keyType = ED25519, data = d\<rparr>) \<and>
      KeyPair_fromString S N s0 = KeyPairEd25519_new S N s0)
   \<and> (count_list s1 CHR '':'' = 1 \<longrightarrow>
        (\<exists>tag enc. s1 = tag @ '':'' @ enc \<and> CHR '':'' \<notin> set tag \<and> CHR '':'' \<notin> set enc))
   \<and> (CHR '':'' \<notin> set tag \<and> CHR '':'' \<notin> set enc \<and> toLowerCase tag = ''ed25519'' \<longrightarrow>
        PublicKey_fromString S (tag @ '':'' @ enc) =
          (case base_decode S enc of Inl e \<Rightarrow> Inl e | Inr d \<Rightarrow> Inr \<lparr>keyType = ED25519, data = d\<rparr>) \<and>
        KeyPair_fromString S N (tag @ '':'' @ enc) = KeyPairEd25519_new S N enc)
   \<and> (CHR '':'' \<notin> set tag \<and> CHR '':'' \<notin> set enc \<and> toLowerCase tag \<noteq> ''ed25519'' \<longrightarrow>
        PublicKey_fromString S (tag @ '':'' @ enc) = Inl (Error (''Unknown key type '' @ tag)) \<and>
        KeyPair_fromString S N (tag @ '':'' @ enc) = Inl (Error (''Unknown curve: '' @ tag)))
   \<and> (2 \<le> count_list s2 CHR '':'' \<longrightarrow>
        PublicKey_fromString S s2 =
          Inl (Error ''Invalid encoded key format, must be <curve>:<encoded key>'') \<and>
        KeyPair_fromString S N s2 =
          Inl (Error ''Invalid encoded key format, must be <curve>:<encoded key>''))"
proof (intro conjI impI)
  assume "count_list s0 CHR '':'' = 0"
  then have n: "CHR '':'' \<notin> set s0" by (simp add: count_list_0_iff_notin)
  from n show "PublicKey_fromString S s0 =
      (case base_decode S s0 of Inl e \<Rightarrow> Inl e | Inr d \<Rightarrow> Inr \<lparr>keyType = ED25519, data = d\<rparr>)"
    by (rule PublicKey_fromString_bare)
  from n show "KeyPair_fromString S N s0 = KeyPairEd25519_new S N s0"
    by (rule KeyPair_fromString_bare)
next
  assume "count_list s1 CHR '':'' = 1"
  from one_sep_decomp [OF this]
  show "\<exists>tag enc. s1 = tag @ '':'' @ enc \<and> CHR '':'' \<notin> set tag \<and> CHR '':'' \<notin> set enc"
    by simp
next
  assume h: "CHR '':'' \<notin> set tag \<and> CHR '':'' \<notin> set enc \<and> toLowerCase tag = ''ed25519''"
  then show "PublicKey_fromString S (tag @ '':'' @ enc) =
      (case base_decode S enc of Inl e \<Rightarrow> Inl e | Inr d \<Rightarrow> Inr \<lparr>keyType = ED25519, data = d\<rparr>)"
    using PublicKey_fromString_tagged [of tag enc S] by simp
  from h show "KeyPair_fromString S N (tag @ '':'' @ enc) = KeyPairEd25519_new S N enc"
    using KeyPair_fromString_tagged [of tag enc S N] by simp
next
  assume h: "CHR '':'' \<notin> set tag \<and> CHR '':'' \<notin> set enc \<and> toLowerCase tag \<noteq> ''ed25519''"
  then show "PublicKey_fromString S (tag @ '':'' @ enc) = Inl (Error (''Unknown key type '' @ tag))"
    using PublicKey_fromString_tagged [of tag enc S] by simp
  from h show "KeyPair_fromString S N (tag @ '':'' @ enc) = Inl (Error (''Unknown curve: '' @ tag))"
    using KeyPair_fromString_tagged [of tag enc S N] by simp
next
  assume h: "2 \<le> count_list s2 CHR '':''"
  then show "PublicKey_fromString S s2 =
      Inl (Error ''Invalid encoded key format, must be <curve>:<encoded key>'')"
    by (rule PublicKey_fromString_many)
  from h show "KeyPair_fromString S N s2 =
      Inl (Error ''Invalid encoded key format, must be <curve>:<encoded key>'')"
    by (rule KeyPair_fromString_many)
qed

theorem fromString_by_colon_count_witness:
  "PublicKey_fromString bs58 ''abc'' = Inr \<lparr>keyType = ED25519, data = [1, 185, 123]\<rparr>
   \<and> KeyPair_fromString bs58 std_nacl secret1 = Inr kp1
   \<and> PublicKey_fromString bs58 ''ED25519:abc'' = Inr \<lparr>keyType = ED25519, data = [1, 185, 123]\<rparr>
   \<and> KeyPair_fromString bs58 std_nacl (''ED25519:'' @ secret1) = Inr kp1
   \<and> PublicKey_fromString bs58 ''rsa:abc'' = Inl (Error ''Unknown key type rsa'')
   \<and> KeyPair_fromString bs58 std_nacl ''rsa:abc'' = Inl (Error ''Unknown curve: rsa'')
   \<and> PublicKey_fromString bs58 ''a:b:c'' =
        Inl (Error ''Invalid encoded key format, must be <curve>:<encoded key>'')
   \<and> KeyPair_fromString bs58 std_nacl ''a:b:c'' =
        Inl (Error ''Invalid encoded key format, must be <curve>:<encoded key>'')"
  using fromString_by_colon_count [of "''abc''" bs58 std_nacl "''x:y''" "''ED25519''" "''abc''" "''a:b:c''"]
    fromString_by_colon_count [of secret1 bs58 std_nacl "''x:y''" "''ED25519''" secret1 "''a:b:c''"]
    fromString_by_colon_count [of "''abc''" bs58 std_nacl "''x:y''" "''rsa''" "''abc''" "''a:b:c''"]
  by (simp add: decode_abc new_kp1 lower_tag lower_rsa secret1_no_colon count_list_0_iff_notin)

text \<open>
  C7, as amended. \<^verbatim>\<open>toString\<close> of every public key whose key type is the member
  ED25519 is \<^verbatim>\<open>ed25519:\<close> followed by the encoded bytes; the tag \<^verbatim>\<open>key_type_to_str\<close>
  returns is \<^verbatim>\<open>ed25519\<close> and lower case. The key type is ED25519 for every public key
  \<^verbatim>\<open>PublicKey.fromString\<close> returns and for the public key of every key pair the
  constructor returns. \<^verbatim>\<open>toString\<close> of every key pair is \<^verbatim>\<open>ed25519:\<close> followed by the
  secret key. So a value parsed from a legacy string without a prefix is written as the
  prefix followed by the encoding of the decoded bytes (public key) or by the input
  itself (key pair), never as the bare input.
\<close>

theorem toString_canonical:
  "(keyType pk = ED25519 \<longrightarrow>
      PublicKey_toString S pk = Inr (''ed25519:'' @ base_encode S (data pk)))
   \<and> (key_type_to_str t = Inr tag \<longrightarrow> tag = ''ed25519'' \<and> toLowerCase tag = tag)
   \<and> KeyPairEd25519_toString kp = ''ed25519:'' @ secretKey kp
   \<and> (PublicKey_fromString S s = Inr pk' \<longrightarrow>
        PublicKey_toString S pk' = Inr (''ed25519:'' @ base_encode S (data pk')))
   \<and> (CHR '':'' \<notin> set s \<and> PublicKey_fromString S s = Inr pk' \<longrightarrow>
        base_decode S s = Inr (data pk'))
   \<and> (KeyPairEd25519_new S N s' = Inr kp' \<longrightarrow>
        PublicKey_toString S (publicKey kp')
          = Inr (''ed25519:'' @ base_encode S (data (publicKey kp'))))
   \<and> (CHR '':'' \<notin> set s' \<and> KeyPair_fromString S N s' = Inr kp' \<longrightarrow>
        KeyPairEd25519_toString kp' = ''ed25519:'' @ s')"
proof -
  have a: "PublicKey_toString S q = Inr (''ed25519:'' @ base_encode S (data q))"
    if "keyType q = ED25519" for q
    using that by (simp add: PublicKey_toString_def key_type_to_str_def)
  have b: "tag = ''ed25519'' \<and> toLowerCase tag = tag" if "key_type_to_str t = Inr tag"
    using that lower_tag_idem by (auto simp: key_type_to_str_def split: if_splits)
  have c: "KeyPairEd25519_toString kp = ''ed25519:'' @ secretKey kp"
    by (simp add: KeyPairEd25519_toString_def)
  have parsed: "keyType pk' = ED25519" if "PublicKey_fromString S s = Inr pk'"
    using that
    by (auto simp: PublicKey_fromString_def str_to_key_type_def Let_def
        split: if_splits sum.splits)
  have d: "base_decode S s = Inr (data pk')"
    if "CHR '':'' \<notin> set s \<and> PublicKey_fromString S s = Inr pk'"
    using that by (auto simp: PublicKey_fromString_bare split: sum.splits)
  have built: "keyType (publicKey kp') = ED25519" if "KeyPairEd25519_new S N s' = Inr kp'"
    using that by (auto simp: KeyPairEd25519_new_def split: sum.splits)
  have e: "KeyPairEd25519_toString kp' = ''ed25519:'' @ s'"
    if "CHR '':'' \<notin> set s' \<and> KeyPair_fromString S N s' = Inr kp'"
    using that
    by (auto simp: KeyPair_fromString_bare KeyPairEd25519_new_def KeyPairEd25519_toString_def
        split: sum.splits)
  from a [of pk] a [OF parsed] a [OF built] b c d e show ?thesis by blast
qed

theorem toString_canonical_witness:
  "PublicKey_fromString bs58 ''abc'' = Inr \<lparr>keyType = ED25519, data = [1, 185, 123]\<rparr>
   \<and> PublicKey_toString bs58 \<lparr>keyType = ED25519, data = [1, 185, 123]\<rparr> = Inr ''ed25519:abc''
   \<and> KeyPair_fromString bs58 std_nacl secret1 = Inr kp1
   \<and> KeyPairEd25519_toString kp1 = ''ed25519:'' @ secret1
   \<and> PublicKey_toString bs58 (publicKey kp1) = Inr (''ed25519:'' @ base_encode bs58 seed1)"
  using toString_canonical [of "\<lparr>keyType = ED25519, data = [1, 185, 123]\<rparr>" bs58 ED25519
      "''ed25519''" kp1 "''abc''" "\<lparr>keyType = ED25519, data = [1, 185, 123]\<rparr>" std_nacl secret1 kp1]
  by (simp add: PublicKey_fromString_bare KeyPair_fromString_bare decode_abc encode_abc new_kp1
      secret1_no_colon kp1_def key_type_to_str_def)

text \<open>
  As stated for every public key, the claim fails: a \<^verbatim>\<open>keyType\<close> field holds a number,
  and for a number that is not a member of the enumeration \<^verbatim>\<open>toString\<close> throws from the
  \<^verbatim>\<open>default\<close> branch of \<^verbatim>\<open>key_type_to_str\<close>.
\<close>

theorem PublicKey_toString_unknown_key_type_throws:
  "PublicKey_toString bs58 \<lparr>keyType = 1, data = [1, 185, 123]\<rparr>
     = Inl (Error ''Unknown key type 1'')"
  by (simp add: PublicKey_toString_def unknown_key_type_1)

text \<open>
  C8. Whenever \<^verbatim>\<open>encryptMessage\<close> returns a buffer, given that the ephemeral public
  key has 32 bytes and the nonce 24: the buffer is the ephemeral public key, the nonce
  and the ciphertext of \<^verbatim>\<open>nacl.box\<close> one after the other, so bytes 0..32 are the
  ephemeral public key, bytes 32..56 the nonce and the bytes from 56 on the ciphertext;
  and \<^verbatim>\<open>decryptMessage\<close>, on that buffer, hands exactly these three parts to
  \<^verbatim>\<open>nacl.box.open\<close>.
\<close>

theorem encryptMessage_wire_layout:
  assumes "encryptMessage N E rnd nonce this m rpk = Inr out"
    and "length (nacl_KeyPair.publicKey (box_keyPair N rnd)) = 32"
    and "length nonce = 24"
  shows "\<exists>cipher.
      box N m nonce (convertPublicKey E (data rpk)) (nacl_KeyPair.secretKey (box_keyPair N rnd))
        = Inr cipher
      \<and> out = nacl_KeyPair.publicKey (box_keyPair N rnd) @ nonce @ cipher
      \<and> slice out 0 32 = nacl_KeyPair.publicKey (box_keyPair N rnd)
      \<and> slice out 32 56 = nonce
      \<and> slice_from out 56 = cipher
      \<and> (\<forall>kp raw. base_decode S (secretKey kp) = Inr raw \<longrightarrow>
           decryptMessage S N E kp out =
             box_open N cipher nonce (nacl_KeyPair.publicKey (box_keyPair N rnd))
               (convertSecretKey E raw))"
proof -
  from assms(1) obtain cipher where
    b: "box N m nonce (convertPublicKey E (data rpk)) (nacl_KeyPair.secretKey (box_keyPair N rnd))
          = Inr cipher"
    and o: "out = nacl_KeyPair.publicKey (box_keyPair N rnd) @ nonce @ cipher"
    by (auto simp: encryptMessage_envelope split: sum.splits)
  from o assms(2,3) have "slice out 0 32 = nacl_KeyPair.publicKey (box_keyPair N rnd)"
    and "slice out 32 56 = nonce" and "slice_from out 56 = cipher"
    by (simp_all add: slices_of_envelope)
  moreover have "\<forall>kp raw. base_decode S (secretKey kp) = Inr raw \<longrightarrow>
      decryptMessage S N E kp out =
        box_open N cipher nonce (nacl_KeyPair.publicKey (box_keyPair N rnd)) (convertSecretKey E raw)"
    using o assms(2,3) by (simp add: decryptMessage_envelope)
  ultimately show ?thesis using b o by blast
qed

theorem encryptMessage_wire_layout_witness:
  "encryptMessage std_nacl std_ed2curve (replicate 32 7) (replicate 24 9) kp1 [1, 2, 3, 4, 5, 6]
      (getPublicKey kp1) = Inr (replicate 32 7 @ replicate 24 9 @ cipher1)
   \<and> slice (replicate 32 7 @ replicate 24 9 @ cipher1) 0 32 = replicate 32 7
   \<and> slice (replicate 32 7 @ replicate 24 9 @ cipher1) 32 56 = replicate 24 9
   \<and> slice_from (replicate 32 7 @ replicate 24 9 @ cipher1) 56 = cipher1
   \<and> decryptMessage bs58 std_nacl std_ed2curve kp1 (replicate 32 7 @ replicate 24 9 @ cipher1)
       = box_open std_nacl cipher1 (replicate 24 9) (replicate 32 7)
           (convertSecretKey std_ed2curve (seed1 @ seed1))"
proof -
  have k: "nacl_KeyPair.publicKey (box_keyPair std_nacl (replicate 32 7)) = replicate 32 7"
    "nacl_KeyPair.secretKey (box_keyPair std_nacl (replicate 32 7)) = replicate 32 7"
    by (simp_all add: std_nacl_def std_box_keyPair_def)
  have d: "base_decode bs58 (secretKey kp1) = Inr (seed1 @ seed1)"
    by (simp add: kp1_def decode_secret1)
  from encryptMessage_wire_layout [OF encrypt_kp1, of bs58] d show ?thesis
    by (simp add: k encrypt_kp1)
qed

text \<open>
  C10, as amended. \<^verbatim>\<open>PublicKey.fromString\<close> checks no length: for every input with no
  colon, or with one colon and the tag \<^verbatim>\<open>ed25519\<close> in any mix of upper and lower case,
  whose encoded part decodes, it returns the ED25519 public key whose data is exactly the
  decoded bytes, of whatever length.
\<close>

theorem PublicKey_fromString_no_length_check:
  "(CHR '':'' \<notin> set s \<and> base_decode S s = Inr d \<longrightarrow>
      PublicKey_fromString S s = Inr \<lparr>keyType = ED25519, data = d\<rparr>)
   \<and> (CHR '':'' \<notin> set tag \<and> CHR '':'' \<notin> set enc \<and> toLowerCase tag = ''ed25519'' \<and>
       base_decode S enc = Inr d \<longrightarrow>
      PublicKey_fromString S (tag @ '':'' @ enc) = Inr \<lparr>keyType = ED25519, data = d\<rparr>)"
  using PublicKey_fromString_tagged [of tag enc S]
  by (simp add: PublicKey_fromString_bare)

theorem PublicKey_fromString_no_length_check_witness:
  "PublicKey_fromString bs58 ''abc'' = Inr \<lparr>keyType = ED25519, data = [1, 185, 123]\<rparr>
   \<and> PublicKey_fromString bs58 ''ED25519:abc'' = Inr \<lparr>keyType = ED25519, data = [1, 185, 123]\<rparr>
   \<and> PublicKey_fromString bs58 secret1 = Inr \<lparr>keyType = ED25519, data = seed1 @ seed1\<rparr>
   \<and> length (seed1 @ seed1) = 64"
  using PublicKey_fromString_no_length_check [of "''abc''" bs58 "[1, 185, 123]" "''ED25519''" "''abc''"]
    PublicKey_fromString_no_length_check [of secret1 bs58 "seed1 @ seed1" "''ED25519''" "''abc''"]
  by (simp add: decode_abc decode_secret1 lower_tag secret1_no_colon length_seed1)

text \<open>
  As stated for every input with at most one colon, the claim fails on an input with
  another tag: \<^verbatim>\<open>rsa:abc\<close> has one colon and \<^verbatim>\<open>abc\<close> decodes, yet the call throws.
\<close>

theorem PublicKey_fromString_unknown_tag_throws:
  "count_list ''rsa:abc'' CHR '':'' = 1
   \<and> String_split ''rsa:abc'' CHR '':'' = [''rsa'', ''abc'']
   \<and> base_decode bs58 ''abc'' = Inr [1, 185, 123]
   \<and> PublicKey_fromString bs58 ''rsa:abc'' = Inl (Error ''Unknown key type rsa'')"
  using PublicKey_fromString_tagged [of "''rsa''" "''abc''" bs58]
  by (simp add: decode_abc lower_rsa)

end
